theory Spec2Isabelle
  imports Complex_Main "HOL-Library.Word"
begin

section \<open>Python values and string primitives\<close>

text \<open>
  A Python \<^verbatim>\<open>str\<close> is modelled as a \<^typ>\<open>string\<close> whose characters are the code points
  below 256. The primitives below are the built-in string methods the repository calls:
  \<^verbatim>\<open>str.split()\<close> without arguments, \<^verbatim>\<open>" ".join\<close>, \<^verbatim>\<open>str.strip()\<close>, \<^verbatim>\<open>str.lower()\<close>,
  \<^verbatim>\<open>str.upper()\<close> and the substring test \<^verbatim>\<open>a in b\<close>.
\<close>

definition is_space :: "char \<Rightarrow> bool" where
  \<comment> \<open>\<^verbatim>\<open>str.isspace\<close> on one code point below 256: TAB, LF, VT, FF, CR, FS, GS, RS, US,
      SPACE, NEL and NBSP.\<close>
  "is_space c = (of_char c \<in> set [9, 10, 11, 12, 13, 28, 29, 30, 31, 32, 133, 160 :: nat])"

fun split_acc :: "string \<Rightarrow> string \<Rightarrow> string list" where
  "split_acc w [] = (if w = [] then [] else [w])"
| "split_acc w (c # cs) =
     (if is_space c then (if w = [] then split_acc [] cs else w # split_acc [] cs)
      else split_acc (w @ [c]) cs)"

definition py_split :: "string \<Rightarrow> string list" where
  \<comment> \<open>\<^verbatim>\<open>s.split()\<close>: the maximal runs of non-whitespace characters, in order.\<close>
  "py_split s = split_acc [] s"

fun py_join :: "string \<Rightarrow> string list \<Rightarrow> string" where
  "py_join sep [] = []"
| "py_join sep [w] = w"
| "py_join sep (w # v # ws) = w @ sep @ py_join sep (v # ws)"

definition py_strip :: "string \<Rightarrow> string" where
  \<comment> \<open>\<^verbatim>\<open>s.strip()\<close>: whitespace removed at both ends.\<close>
  "py_strip s = rev (dropWhile is_space (rev (dropWhile is_space s)))"

definition lower_char :: "char \<Rightarrow> char" where
  \<comment> \<open>\<^verbatim>\<open>str.lower\<close> on one code point below 256: A-Z and the Latin-1 capitals.\<close>
  "lower_char c =
     (let n = of_char c :: nat in
      if (65 \<le> n \<and> n \<le> 90) \<or> (192 \<le> n \<and> n \<le> 222 \<and> n \<noteq> 215) then char_of (n + 32) else c)"

definition py_lower :: "string \<Rightarrow> string" where
  "py_lower s = map lower_char s"

definition upper_char :: "char \<Rightarrow> char" where
  \<comment> \<open>\<^verbatim>\<open>str.upper\<close> on one ASCII code point.\<close>
  "upper_char c =
     (let n = of_char c :: nat in if 97 \<le> n \<and> n \<le> 122 then char_of (n - 32) else c)"

fun starts_with :: "string \<Rightarrow> string \<Rightarrow> bool" where
  "starts_with [] s = True"
| "starts_with (p # ps) [] = False"
| "starts_with (p # ps) (c # cs) = (p = c \<and> starts_with ps cs)"

fun contains :: "string \<Rightarrow> string \<Rightarrow> bool" where
  \<comment> \<open>\<^verbatim>\<open>needle in hay\<close>\<close>
  "contains needle [] = (needle = [])"
| "contains needle (c # cs) = (starts_with needle (c # cs) \<or> contains needle cs)"

datatype exn = ValueError string | Exception string

fun str_exn :: "exn \<Rightarrow> string" where
  \<comment> \<open>\<^verbatim>\<open>str(exc)\<close>: the message of the exception.\<close>
  "str_exn (ValueError m) = m"
| "str_exn (Exception m) = m"

datatype 'a outcome = Returns 'a | Raises exn

section \<open>Content processor\<close>

definition estimate_tokens :: "string \<Rightarrow> int" where
  \<comment> \<open>\<^verbatim>\<open>words = len(text.split()); return int(words * 1.3)\<close>. The product is never negative
      and \<^verbatim>\<open>int\<close> truncates, so the result is the floor of the product; the factor is
      taken as the decimal 13/10.\<close>
  "estimate_tokens text = \<lfloor>of_nat (length (py_split text)) * (13 / 10 :: rat)\<rfloor>"

section \<open>Embedding client: retries with backoff\<close>

definition is_rate_limit :: "string \<Rightarrow> bool" where
  "is_rate_limit msg =
     (let error_str = py_lower msg in
      contains ''429'' error_str \<or> contains ''rate limit'' error_str \<or>
      contains ''quota exceeded'' error_str \<or> contains ''resource exhausted'' error_str)"

text \<open>
  \<^verbatim>\<open>_with_retries(func, ...)\<close>. The wrapped call is external, so its behaviour is given by
  the outcome of each successive invocation: \<open>func k\<close> is what invocation number \<open>k\<close>
  (from 0) does. Every pass through the loop that does not return adds one to
  \<^verbatim>\<open>attempt\<close>, so the invocation made when \<^verbatim>\<open>attempt = k\<close> is invocation \<open>k\<close>. The result is
  what the method returns or raises, with the list of \<^verbatim>\<open>time.sleep\<close> durations (seconds)
  in the order they happened. The backoff starts at 1.0 and is doubled, so it stays a
  whole number.
\<close>

function with_retries_loop ::
  "(nat \<Rightarrow> 'a outcome) \<Rightarrow> nat \<Rightarrow> nat \<Rightarrow> nat list \<Rightarrow> (exn + 'a) \<times> nat list" where
  "with_retries_loop func attempt backoff slept =
     (case func attempt of
        Returns v \<Rightarrow> (Inr v, slept)
      | Raises exc \<Rightarrow>
          (if is_rate_limit (str_exn exc) then
             (if attempt + 1 \<ge> 5 then (Inl exc, slept)
              else with_retries_loop func (attempt + 1) (backoff * 2) (slept @ [backoff]))
           else
             (if attempt + 1 \<ge> 3 then (Inl exc, slept)
              else with_retries_loop func (attempt + 1) (backoff * 2) (slept @ [backoff]))))"
  by pat_completeness auto
termination
  by (relation "measure (\<lambda>(func, attempt, backoff, slept). 5 - attempt)") auto

definition with_retries :: "(nat \<Rightarrow> 'a outcome) \<Rightarrow> (exn + 'a) \<times> nat list" where
  "with_retries func = with_retries_loop func 0 1 []"

section \<open>Answer generator\<close>

fun str_nat :: "nat \<Rightarrow> string" where
  "str_nat n =
     (if n < 10 then [char_of (48 + n)] else str_nat (n div 10) @ [char_of (48 + n mod 10)])"

definition str_int :: "int \<Rightarrow> string" where
  "str_int i = (if i < 0 then ''-'' @ str_nat (nat (- i)) else str_nat (nat i))"

definition py_upper :: "string \<Rightarrow> string" where
  "py_upper s = map upper_char s"

datatype finish_reason = FRInt int | FRStr string | FREnum int string

fun fr_equals :: "finish_reason \<Rightarrow> int \<Rightarrow> bool" where
  "fr_equals (FRInt n) k = (n = k)"
| "fr_equals (FRStr s) k = False"
| "fr_equals (FREnum n s) k = (n = k)"

fun str_fr :: "finish_reason \<Rightarrow> string" where
  "str_fr (FRInt n) = str_int n"
| "str_fr (FRStr s) = s"
| "str_fr (FREnum n s) = s"

datatype text_attr = TextMissing | TextStr string | TextNone | TextRaises exn

record candidate =
  cand_finish_reason :: "finish_reason option"

record response =
  resp_candidates :: "candidate list option"
  resp_text :: text_attr

record search_hit =
  hit_text :: "string option"
  hit_source_url :: "string option"
  hit_score :: "real option"

definition str_opt :: "string option \<Rightarrow> string" where
  "str_opt v = (case v of None \<Rightarrow> ''None'' | Some s \<Rightarrow> s)"

definition refusal :: string where
  "refusal = ''I cannot answer this question based on the provided context.''"

definition format_chunk :: "nat \<Rightarrow> search_hit \<Rightarrow> string" where
  "format_chunk idx chunk =
     ''Source '' @ str_nat idx @ '' ('' @ str_opt (hit_source_url chunk) @ ''):\<newline>'' @
     str_opt (hit_text chunk) @ ''\<newline>''"

definition build_prompt :: "string \<Rightarrow> search_hit list \<Rightarrow> string" where
  \<open>build_prompt question context_chunks =
     (let formatted_chunks =
            map (\<lambda>(idx, chunk). format_chunk idx chunk)
              (zip [1 ..< Suc (length context_chunks)] context_chunks);
          formatted_context = py_join ''\<newline>---\<newline>'' formatted_chunks
      in ''You are a helpful AI assistant that answers questions based ONLY on the provided context.\<newline>'' @
         ''INSTRUCTIONS:\<newline>'' @
         ''Read the context sources carefully\<newline>'' @
         ''Answer the question using ONLY information from the context\<newline>'' @
         ''If the context doesn't contain enough information, respond: "'' @ refusal @ ''"\<newline>'' @
         ''Cite which source number(s) you used (e.g., "According to Source 1...")\<newline>'' @
         ''Be concise but complete\<newline>'' @
         ''Do not add information not present in the context\<newline>'' @
         ''CONTEXT:\<newline>'' @ formatted_context @ ''\<newline>'' @
         ''QUESTION: '' @ question @ ''\<newline>'' @
         ''ANSWER:'')\<close>

definition is_safety :: "finish_reason \<Rightarrow> bool" where
  "is_safety fr = (fr_equals fr 2 \<or> py_upper (str_fr fr) = ''SAFETY'')"

definition none_has_no_strip :: exn where
  "none_has_no_strip =
     Exception (''AttributeError: 'NoneType' object has no attribute 'strip'' @ [CHR 0x27])"

definition extract_answer :: "response \<Rightarrow> exn + string" where
  "extract_answer response =
     (case resp_text response of
        TextMissing \<Rightarrow> Inr (py_strip [])
      | TextStr s \<Rightarrow> Inr (py_strip s)
      | TextNone \<Rightarrow> Inl none_has_no_strip
      | TextRaises e \<Rightarrow> Inl e)"

definition generate_answer ::
  "(string \<Rightarrow> exn + response) \<Rightarrow> string \<Rightarrow> search_hit list \<Rightarrow> exn + string" where
  "generate_answer generate_content question context_chunks =
     (case generate_content (build_prompt question context_chunks) of
        Inl e \<Rightarrow> Inl e
      | Inr response \<Rightarrow>
          (case resp_candidates response of
             Some (candidate # rest) \<Rightarrow>
               (case cand_finish_reason candidate of
                  Some finish_reason \<Rightarrow>
                    if is_safety finish_reason then Inr refusal else extract_answer response
                | None \<Rightarrow> extract_answer response)
           | _ \<Rightarrow> extract_answer response))"

text \<open>
  The finish reason that \<open>generate_answer\<close> looks at (that of the first candidate, when the
  response has candidates and the candidate has the attribute), and the test it applies
  to it.
\<close>

definition first_finish_reason :: "response \<Rightarrow> finish_reason option" where
  "first_finish_reason response =
     (case resp_candidates response of
        Some (candidate # rest) \<Rightarrow> cand_finish_reason candidate
      | _ \<Rightarrow> None)"

definition refusal_detected :: "response \<Rightarrow> bool" where
  "refusal_detected response =
     (case first_finish_reason response of
        Some fr \<Rightarrow> fr_equals fr 2 \<or> py_upper (str_fr fr) = ''SAFETY''
      | None \<Rightarrow> False)"


section \<open>Embedding client and vector search\<close>

record embed_request =
  req_model :: string
  req_content :: string
  req_task_type :: string
  req_output_dimensionality :: int

datatype pyval = PNone | PBool bool | PInt int | PFloat real | PStr string | PTime nat
  | PList "pyval list" | PDict "(string \<times> pyval) list"

record point_payload =
  payload_text :: "string option"
  payload_source_url :: "string option"

record scored_point =
  sp_payload :: "point_payload option"
  sp_score :: "real option"
  sp_distance :: "real option"

record settings =
  EMBEDDING_MODEL :: string
  EMBEDDING_DIMENSIONS :: int
  QDRANT_COLLECTION :: string

record env =
  embeddings_init :: "exn option"
  qdrant_init :: "exn option"
  llm_init :: "exn option"
  embed_content :: "embed_request \<Rightarrow> nat \<Rightarrow> (string \<rightharpoonup> real list) outcome"
  client_search ::
    "string \<Rightarrow> real list \<Rightarrow> int \<Rightarrow> (string \<times> pyval) list option \<Rightarrow> exn + scored_point list"
  generate_content :: "string \<Rightarrow> exn + response"
  source_chunk_error :: string

definition embed_query :: "settings \<Rightarrow> env \<Rightarrow> string \<Rightarrow> (exn + real list) \<times> nat list" where
  "embed_query cfg world text =
     (case with_retries
             (embed_content world
                \<lparr>req_model = EMBEDDING_MODEL cfg, req_content = text,
                 req_task_type = ''retrieval_query'',
                 req_output_dimensionality = EMBEDDING_DIMENSIONS cfg\<rparr>) of
        (Inl e, slept) \<Rightarrow> (Inl e, slept)
      | (Inr resp, slept) \<Rightarrow>
          (case resp ''embedding'' of None \<Rightarrow> (Inr [], slept) | Some v \<Rightarrow> (Inr v, slept)))"

definition or_else :: "real option \<Rightarrow> real option \<Rightarrow> real option" where
  "or_else a b = (case a of None \<Rightarrow> b | Some x \<Rightarrow> if x = 0 then b else Some x)"

definition hit_of :: "scored_point \<Rightarrow> search_hit" where
  "hit_of h =
     (case sp_payload h of
        None \<Rightarrow> \<lparr>hit_text = None, hit_source_url = None,
                  hit_score = or_else (sp_score h) (sp_distance h)\<rparr>
      | Some payload \<Rightarrow>
          \<lparr>hit_text = payload_text payload, hit_source_url = payload_source_url payload,
           hit_score = or_else (sp_score h) (sp_distance h)\<rparr>)"

definition search ::
  "settings \<Rightarrow> env \<Rightarrow> real list \<Rightarrow> int \<Rightarrow> (string \<times> pyval) list option \<Rightarrow> exn + search_hit list" where
  "search cfg world query_vector top_k filters =
     (let query_filter = (case filters of None \<Rightarrow> None | Some fs \<Rightarrow> if fs = [] then None else Some fs)
      in case client_search world (QDRANT_COLLECTION cfg) query_vector top_k query_filter of
           Inl e \<Rightarrow> Inl e
         | Inr hits \<Rightarrow> Inr (map hit_of hits))"

section \<open>Query orchestrator\<close>

record query_request =
  question :: string
  top_k :: int
  filters :: "(string \<times> pyval) list option"

record source_chunk =
  sc_text :: string
  sc_source_url :: string
  sc_relevance_score :: real

record query_response =
  answer :: string
  sources :: "source_chunk list"
  chunks_retrieved :: nat
  meta_top_k :: int

datatype http_exception = HTTPException nat string

datatype stage = EmbedStage | SearchStage | GenerateStage

definition py_round :: "real \<Rightarrow> int" where
  "py_round x =
     (let f = \<lfloor>x\<rfloor>; d = x - of_int f in
      if d < 1 / 2 then f else if 1 / 2 < d then f + 1 else if even f then f else f + 1)"

definition round4 :: "real \<Rightarrow> real" where
  "round4 x = of_int (py_round (x * 10000)) / 10000"

definition source_of :: "search_hit \<Rightarrow> source_chunk option" where
  "source_of result =
     (let txt = (case hit_text result of None \<Rightarrow> [] | Some t \<Rightarrow> t);
          txt = (if length txt > 300 then take 300 txt @ ''...'' else txt);
          relevance = round4 (case hit_score result of None \<Rightarrow> 0 | Some x \<Rightarrow> x)
      in case hit_source_url result of
           None \<Rightarrow> None
         | Some u \<Rightarrow> Some \<lparr>sc_text = txt, sc_source_url = u, sc_relevance_score = relevance\<rparr>)"

fun all_sources :: "search_hit list \<Rightarrow> source_chunk list option" where
  "all_sources [] = Some []"
| "all_sources (r # rs) =
     (case source_of r of
        None \<Rightarrow> None
      | Some s \<Rightarrow> (case all_sources rs of None \<Rightarrow> None | Some ss \<Rightarrow> Some (s # ss)))"

definition internal_error :: "string \<Rightarrow> http_exception" where
  "internal_error detail = HTTPException 500 detail"

definition query_knowledge_base ::
  "settings \<Rightarrow> env \<Rightarrow> query_request \<Rightarrow> (http_exception + query_response) \<times> stage list" where
  "query_knowledge_base cfg world request =
     (case embeddings_init world of
        Some e \<Rightarrow> (Inl (internal_error (''Query processing failed: '' @ str_exn e)), [])
      | None \<Rightarrow>
     (case qdrant_init world of
        Some e \<Rightarrow> (Inl (internal_error (''Query processing failed: '' @ str_exn e)), [])
      | None \<Rightarrow>
     (case llm_init world of
        Some e \<Rightarrow>
          (Inl (internal_error
                 (''Query processing failed: '' @ ''Failed to initialize Gemini: '' @ str_exn e)), [])
      | None \<Rightarrow>
     (case fst (embed_query cfg world (question request)) of
        Inl e \<Rightarrow> (Inl (internal_error (''Failed to embed question: '' @ str_exn e)), [EmbedStage])
      | Inr query_vector \<Rightarrow>
          if query_vector = [] \<or> length query_vector \<noteq> 1536 then
            (Inl (internal_error ''Embedding service returned invalid dimension''), [EmbedStage])
          else
     (case search cfg world query_vector (top_k request) (filters request) of
        Inl e \<Rightarrow>
          (Inl (internal_error (''Vector database search failed: '' @ str_exn e)),
           [EmbedStage, SearchStage])
      | Inr search_results \<Rightarrow>
          if search_results = [] then
            (Inl (HTTPException 404
                   ''No relevant documents found. Please ingest URLs first using POST /ingest-url''),
             [EmbedStage, SearchStage])
          else
     (case generate_answer (generate_content world) (question request) search_results of
        Inl (ValueError m) \<Rightarrow>
          (Inl (internal_error (''Answer generation failed: '' @ m)),
           [EmbedStage, SearchStage, GenerateStage])
      | Inl (Exception m) \<Rightarrow>
          (Inl (internal_error ''Failed to generate answer due to internal error''),
           [EmbedStage, SearchStage, GenerateStage])
      | Inr ans \<Rightarrow>
          (case all_sources search_results of
             None \<Rightarrow>
               (Inl (internal_error (''Query processing failed: '' @ source_chunk_error world)),
                [EmbedStage, SearchStage, GenerateStage])
           | Some srcs \<Rightarrow>
               (Inr \<lparr>answer = ans, sources = srcs, chunks_retrieved = length search_results,
                     meta_top_k = top_k request\<rparr>,
                [EmbedStage, SearchStage, GenerateStage]))))))))"

section \<open>Job ledger\<close>

datatype column = Id | Url | Status | Created_at | Updated_at | Started_at | Completed_at
  | Chunk_count | Total_tokens | Processing_time_seconds | Error_message | Error_traceback
  | Celery_task_id | Metadata

type_synonym row = "column \<Rightarrow> pyval"

definition all_columns :: "column list" where
  "all_columns = [Id, Url, Status, Created_at, Updated_at, Started_at, Completed_at,
     Chunk_count, Total_tokens, Processing_time_seconds, Error_message, Error_traceback,
     Celery_task_id, Metadata]"

definition allowed_statuses :: "string list" where
  "allowed_statuses = [''pending'', ''processing'', ''completed'', ''failed'']"

definition not_nullable :: "column list" where
  "not_nullable = [Id, Url, Status, Created_at, Updated_at]"

definition row_ok :: "row \<Rightarrow> bool" where
  "row_ok r = (r Status \<in> set (map PStr allowed_statuses) \<and>
               list_all (\<lambda>c. r c \<noteq> PNone) not_nullable)"

definition table_ok :: "row list \<Rightarrow> bool" where
  "table_ok rows = (list_all row_ok rows \<and> distinct (map (\<lambda>r. r Id) rows))"

definition integrity_error :: exn where
  "integrity_error = Exception ''IntegrityError''"

fun json_serializable :: "pyval \<Rightarrow> bool" where
  "json_serializable PNone = True"
| "json_serializable (PBool b) = True"
| "json_serializable (PInt i) = True"
| "json_serializable (PFloat x) = True"
| "json_serializable (PStr s) = True"
| "json_serializable (PTime t) = False"
| "json_serializable (PList vs) = list_all json_serializable vs"
| "json_serializable (PDict kvs) = list_all (\<lambda>kv. json_serializable (snd kv)) kvs"

definition mapping_fields :: "(string \<times> column) list" where
  "mapping_fields =
     [(''started_at'', Started_at), (''completed_at'', Completed_at),
      (''chunk_count'', Chunk_count), (''error_message'', Error_message),
      (''error_traceback'', Error_traceback), (''celery_task_id'', Celery_task_id),
      (''total_tokens'', Total_tokens),
      (''processing_time_seconds'', Processing_time_seconds)]"

fun field_clauses :: "(string \<times> column) list \<Rightarrow> (string \<times> pyval) list \<Rightarrow> (column \<times> pyval) list" where
  "field_clauses [] kwargs = []"
| "field_clauses ((k, col) # fs) kwargs =
     (case map_of kwargs k of
        None \<Rightarrow> field_clauses fs kwargs
      | Some v \<Rightarrow> (col, v) # field_clauses fs kwargs)"

definition set_clauses :: "string \<Rightarrow> (string \<times> pyval) list \<Rightarrow> (column \<times> pyval) list" where
  "set_clauses status kwargs =
     [(Status, PStr status)] @ field_clauses mapping_fields kwargs @
     (case map_of kwargs ''metadata'' of None \<Rightarrow> [] | Some v \<Rightarrow> [(Metadata, v)])"

fun assign :: "(column \<times> pyval) list \<Rightarrow> row \<Rightarrow> row" where
  "assign [] r = r"
| "assign ((c, v) # cs) r = assign cs (r(c := v))"

definition sql_update :: "row list \<Rightarrow> pyval \<Rightarrow> (column \<times> pyval) list \<Rightarrow> exn + row list \<times> row option" where
  "sql_update rows key clauses =
     (let rows' = map (\<lambda>r. if r Id = key then assign clauses r else r) rows;
          returned = map (assign clauses) (filter (\<lambda>r. r Id = key) rows)
      in if table_ok rows' then Inr (rows', case returned of [] \<Rightarrow> None | r # _ \<Rightarrow> Some r)
         else Inl integrity_error)"

definition update_job_status_sync ::
  "row list \<Rightarrow> string \<Rightarrow> string \<Rightarrow> (string \<times> pyval) list \<Rightarrow> exn + row list \<times> row option" where
  "update_job_status_sync rows job_id status kwargs =
     (case map_of kwargs ''metadata'' of
        Some v \<Rightarrow>
          if json_serializable v then sql_update rows (PStr job_id) (set_clauses status kwargs)
          else Inl (Exception ''TypeError: Object is not JSON serializable'')
      | None \<Rightarrow> sql_update rows (PStr job_id) (set_clauses status kwargs))"

definition get_job_by_id :: "row list \<Rightarrow> string \<Rightarrow> row option" where
  "get_job_by_id rows job_id =
     (case filter (\<lambda>r. r Id = PStr job_id) rows of [] \<Rightarrow> None | r # _ \<Rightarrow> Some r)"

definition attr_column :: "string \<Rightarrow> column option" where
  "attr_column k =
     map_of [(''id'', Id), (''url'', Url), (''status'', Status), (''created_at'', Created_at),
       (''updated_at'', Updated_at), (''started_at'', Started_at),
       (''completed_at'', Completed_at), (''chunk_count'', Chunk_count),
       (''total_tokens'', Total_tokens),
       (''processing_time_seconds'', Processing_time_seconds),
       (''error_message'', Error_message), (''error_traceback'', Error_traceback),
       (''celery_task_id'', Celery_task_id), (''metadata_json'', Metadata)] k"

fun set_attributes :: "(string \<times> pyval) list \<Rightarrow> row \<Rightarrow> row" where
  "set_attributes [] job = job"
| "set_attributes ((k, v) # kwargs) job =
     (if k = ''metadata'' then set_attributes kwargs (job(Metadata := v))
      else case attr_column k of
             Some c \<Rightarrow> set_attributes kwargs (job(c := v))
           | None \<Rightarrow> set_attributes kwargs job)"

definition flush :: "nat \<Rightarrow> row \<Rightarrow> row \<Rightarrow> row" where
  "flush now old job =
     (if list_all (\<lambda>c. job c = old c) all_columns then job
      else if job Updated_at \<noteq> old Updated_at then job
      else job(Updated_at := PTime now))"

definition update_job_status ::
  "row list \<Rightarrow> nat \<Rightarrow> string \<Rightarrow> string \<Rightarrow> (string \<times> pyval) list \<Rightarrow> exn + row list \<times> row option" where
  "update_job_status rows now job_id status kwargs =
     (case get_job_by_id rows job_id of
        None \<Rightarrow> Inr (rows, None)
      | Some old \<Rightarrow>
          (let job = flush now old (set_attributes kwargs (old(Status := PStr status)));
               rows' = map (\<lambda>r. if r Id = PStr job_id then job else r) rows
           in if table_ok rows' then Inr (rows', Some job) else Inl integrity_error))"

definition new_job :: "string \<Rightarrow> nat \<Rightarrow> string \<Rightarrow> (string \<times> pyval) list \<Rightarrow> row" where
  "new_job new_id now url metadata =
     (\<lambda>c. PNone)
       (Id := PStr new_id, Url := PStr url, Status := PStr ''pending'',
        Created_at := PTime now, Updated_at := PTime now,
        Chunk_count := PInt 0, Total_tokens := PInt 0, Processing_time_seconds := PFloat 0,
        Metadata := PDict metadata)"

definition create_job ::
  "row list \<Rightarrow> string \<Rightarrow> nat \<Rightarrow> string \<Rightarrow> (string \<times> pyval) list option \<Rightarrow> exn + row list \<times> row" where
  "create_job rows new_id now url metadata =
     (let job = new_job new_id now url (case metadata of None \<Rightarrow> [] | Some m \<Rightarrow> m);
          rows' = rows @ [job]
      in if table_ok rows' then Inr (rows', job) else Inl integrity_error)"

inductive reachable :: "row list \<Rightarrow> bool" where
  empty: "reachable []"
| create: "reachable rows \<Longrightarrow> create_job rows new_id now url metadata = Inr (rows', job)
     \<Longrightarrow> reachable rows'"
| update: "reachable rows \<Longrightarrow> update_job_status rows now job_id status kwargs = Inr (rows', res)
     \<Longrightarrow> reachable rows'"
| update_sync: "reachable rows \<Longrightarrow> update_job_status_sync rows job_id status kwargs = Inr (rows', res)
     \<Longrightarrow> reachable rows'"

text \<open>
  The recognized keyword arguments of the worker-side update and the columns they name,
  listed one by one and independently of the table \<open>mapping_fields\<close> of the code.
\<close>

definition recognized :: "(string \<times> column) list" where
  "recognized =
     [(''started_at'', Started_at), (''completed_at'', Completed_at),
      (''chunk_count'', Chunk_count), (''error_message'', Error_message),
      (''error_traceback'', Error_traceback), (''celery_task_id'', Celery_task_id),
      (''total_tokens'', Total_tokens),
      (''processing_time_seconds'', Processing_time_seconds),
      (''metadata'', Metadata)]"


section \<open>Content processor: cleaning markup\<close>

















section \<open>String hashing of the interpreter\<close>

text \<open>
  \<^verbatim>\<open>hash(s)\<close> of a \<^verbatim>\<open>str\<close> is not defined by the repository but by the interpreter:
  SipHash-1-3 over the bytes of the string (one byte per character for the strings modelled
  here), keyed by a secret of two 64-bit words that each interpreter process draws when it
  starts, unless the environment fixes it. The result is read as a signed 64-bit integer;
  the empty string hashes to 0 and the value -1 is replaced by -2.
\<close>

type_synonym u64 = "64 word"

definition rotate :: "u64 \<Rightarrow> nat \<Rightarrow> u64" where
  "rotate x b = or (push_bit b x) (drop_bit (64 - b) x)"

type_synonym sip_state = "u64 \<times> u64 \<times> u64 \<times> u64"

definition half_round :: "nat \<Rightarrow> nat \<Rightarrow> sip_state \<Rightarrow> sip_state" where
  "half_round s t st =
     (case st of (a, b, c, d) \<Rightarrow>
        (let a1 = a + b; c1 = c + d;
             b1 = xor (rotate b s) a1;
             d1 = xor (rotate d t) c1
         in (rotate a1 32, b1, c1, d1)))"

definition single_round :: "sip_state \<Rightarrow> sip_state" where
  "single_round st =
     (case half_round 13 16 st of (v0, v1, v2, v3) \<Rightarrow>
        (case half_round 17 21 (v2, v1, v0, v3) of (v2', v1', v0', v3') \<Rightarrow>
           (v0', v1', v2', v3')))"

fun le64 :: "char list \<Rightarrow> u64" where
  "le64 [] = 0"
| "le64 (c # cs) = or (of_char c) (push_bit 8 (le64 cs))"

definition absorb :: "u64 \<Rightarrow> sip_state \<Rightarrow> sip_state" where
  "absorb mi st =
     (case st of (v0, v1, v2, v3) \<Rightarrow>
        (case single_round (v0, v1, v2, xor v3 mi) of (w0, w1, w2, w3) \<Rightarrow>
           (xor w0 mi, w1, w2, w3)))"

function sip_blocks :: "char list \<Rightarrow> sip_state \<Rightarrow> sip_state \<times> char list" where
  "sip_blocks src st =
     (if length src \<ge> 8 then sip_blocks (drop 8 src) (absorb (le64 (take 8 src)) st)
      else (st, src))"
  by pat_completeness auto
termination
  by (relation "measure (\<lambda>(src, st). length src)") auto

definition siphash13 :: "u64 \<Rightarrow> u64 \<Rightarrow> char list \<Rightarrow> u64" where
  "siphash13 k0 k1 src =
     (let b = push_bit 56 (of_nat (length src));
          st0 = (xor k0 0x736f6d6570736575, xor k1 0x646f72616e646f6d,
                 xor k0 0x6c7967656e657261, xor k1 0x7465646279746573)
      in case sip_blocks src st0 of (st, rest) \<Rightarrow>
           (let b' = or b (le64 rest)
            in case absorb b' st of (v0, v1, v2, v3) \<Rightarrow>
                 (case single_round (single_round (single_round (v0, v1, xor v2 0xff, v3))) of
                    (w0, w1, w2, w3) \<Rightarrow> xor (xor w0 w1) (xor w2 w3))))"

definition py_hash :: "u64 \<times> u64 \<Rightarrow> string \<Rightarrow> int" where
  "py_hash secret s =
     (if s = [] then 0
      else let x = sint (siphash13 (fst secret) (snd secret) s)
           in if x = - 1 then - 2 else x)"

section \<open>Vector store: adding documents\<close>

text \<open>
  A collection maps point ids to points; an upsert stores each point under its id and
  replaces what was there. \<open>add_documents\<close> runs inside a process with its hash secret; the
  time stamp is read from the clock and the upsert fails when the store is unreachable.
\<close>

record point_struct =
  ps_id :: int
  ps_vector :: "real list"
  ps_payload :: "(string \<times> pyval) list"

type_synonym collection = "int \<rightharpoonup> point_struct"

definition metadata_get :: "(string \<times> pyval) list option \<Rightarrow> string \<Rightarrow> pyval" where
  "metadata_get metadata k =
     (case metadata of
        None \<Rightarrow> PNone
      | Some m \<Rightarrow> (case map_of m k of None \<Rightarrow> PNone | Some v \<Rightarrow> v))"

definition make_point ::
  "u64 \<times> u64 \<Rightarrow> (string \<times> pyval) list option \<Rightarrow> string \<Rightarrow> string \<Rightarrow>
   nat \<times> string \<times> real list \<Rightarrow> point_struct" where
  "make_point secret metadata job_id ingested_at entry =
     (case entry of (idx, chunk, vec) \<Rightarrow>
        (let payload =
               [(''text'', PStr chunk),
                (''source_url'', metadata_get metadata ''source_url''),
                (''job_id'', PStr job_id),
                (''chunk_index'', PInt (int idx)),
                (''ingested_at'', PStr ingested_at),
                (''title'', metadata_get metadata ''title'')];
             job_hash = py_hash secret job_id mod 1000000;
             point_id = job_hash * 10000 + int idx
         in \<lparr>ps_id = point_id, ps_vector = vec, ps_payload = payload\<rparr>))"

definition upsert :: "collection \<Rightarrow> point_struct list \<Rightarrow> collection" where
  "upsert stored points = fold (\<lambda>p c. c(ps_id p \<mapsto> p)) points stored"

definition add_documents ::
  "u64 \<times> u64 \<Rightarrow> exn option \<Rightarrow> collection \<Rightarrow> string \<Rightarrow> string list \<Rightarrow> real list list \<Rightarrow>
   (string \<times> pyval) list option \<Rightarrow> string \<Rightarrow> exn + collection \<times> nat" where
  "add_documents secret outage stored ingested_at chunks vectors metadata job_id =
     (let points = map (make_point secret metadata job_id ingested_at)
                     (enumerate 0 (zip chunks vectors))
      in case outage of
           Some e \<Rightarrow> Inl e
         | None \<Rightarrow> Inr (upsert stored points, length points))"


section \<open>Example inputs\<close>

definition example_settings :: settings where
  "example_settings =
     \<lparr>EMBEDDING_MODEL = ''gemini-embedding-001'', EMBEDDING_DIMENSIONS = 1536,
      QDRANT_COLLECTION = ''web_documents''\<rparr>"

definition example_response :: "finish_reason option \<Rightarrow> text_attr \<Rightarrow> response" where
  "example_response fr t =
     \<lparr>resp_candidates = Some [\<lparr>cand_finish_reason = fr\<rparr>], resp_text = t\<rparr>"

definition example_world :: "real list \<Rightarrow> scored_point list \<Rightarrow> response \<Rightarrow> env" where
  "example_world v hits r =
     \<lparr>embeddings_init = None, qdrant_init = None, llm_init = None,
      embed_content = (\<lambda>req k. Returns [''embedding'' \<mapsto> v]),
      client_search = (\<lambda>c q k f. Inr hits),
      generate_content = (\<lambda>p. Inr r),
      source_chunk_error = ''1 validation error for SourceChunk''\<rparr>"

definition failing_world :: "exn \<Rightarrow> env" where
  "failing_world e =
     \<lparr>embeddings_init = None, qdrant_init = None, llm_init = None,
      embed_content = (\<lambda>req k. Raises e),
      client_search = (\<lambda>c q k f. Inr []),
      generate_content = (\<lambda>p. Inl e),
      source_chunk_error = ''1 validation error for SourceChunk''\<rparr>"

definition example_request :: query_request where
  "example_request = \<lparr>question = ''what is rag?'', top_k = 5, filters = None\<rparr>"

definition example_job :: row where
  "example_job = new_job ''job-1'' 10 ''https://example.com/article'' []"







text \<open>
  The hash secrets of two interpreter processes (those derived from the seeds 1 and 2 of
  \<^verbatim>\<open>PYTHONHASHSEED\<close>), and a job identifier.
\<close>

definition worker_a :: "u64 \<times> u64" where
  "worker_a = (0xaed66ce184be2329, 0xebe9bbf1f1499052)"

definition worker_b :: "u64 \<times> u64" where
  "worker_b = (0x3ffec22c8386202d, 0xa5995e6c1db58cd1)"

definition example_job_id :: string where
  "example_job_id = ''3f2b8c1e-7a4d-4e5f-9b6a-1c2d3e4f5a6b''"


section \<open>Properties of the content processor\<close>

text \<open>
  C5 (as the code has it). For every chunk text the token estimate is the word count
  (whitespace-separated) times 1.3 rounded down: \<^verbatim>\<open>int\<close> drops the fraction. It is within
  one below the product and never above it.
\<close>

theorem estimate_tokens_truncates:
  "estimate_tokens text = (13 * int (length (py_split text))) div 10 \<and>
   of_int (estimate_tokens text) \<le> of_nat (length (py_split text)) * (13 / 10 :: rat) \<and>
   of_nat (length (py_split text)) * (13 / 10 :: rat) < of_int (estimate_tokens text) + 1"
proof -
  have "of_nat (length (py_split text)) * (13 / 10 :: rat) =
        of_int (13 * int (length (py_split text))) / of_int 10"
    by simp
  then have "estimate_tokens text = (13 * int (length (py_split text))) div 10"
    unfolding estimate_tokens_def by (simp only: floor_divide_of_int_eq)
  moreover have "of_int (estimate_tokens text) \<le> of_nat (length (py_split text)) * (13 / 10 :: rat)"
    unfolding estimate_tokens_def by (rule of_int_floor_le)
  moreover have "of_nat (length (py_split text)) * (13 / 10 :: rat) < of_int (estimate_tokens text) + 1"
    unfolding estimate_tokens_def by linarith
  ultimately show ?thesis by blast
qed

theorem estimate_tokens_truncates_witness:
  "estimate_tokens ''the quick  brown fox'' = 5"
  using estimate_tokens_truncates [of "''the quick  brown fox''"]
  by (simp add: py_split_def is_space_def)

text \<open>
  C5 as stated fails: the two-word text \<^verbatim>\<open>"a b"\<close> has the product 2.6, whose nearest
  integer is 3, and the estimate is 2.
\<close>

theorem estimate_tokens_not_nearest:
  "length (py_split ''a b'') = 2 \<and> estimate_tokens ''a b'' = 2 \<and>
   estimate_tokens ''a b'' \<noteq> round (of_nat (length (py_split ''a b'')) * (13 / 10 :: rat))"
  by code_simp

section \<open>Properties of the retry loop\<close>

declare with_retries_loop.simps [simp del]

lemma loop_returns: "func a = Returns v \<Longrightarrow> with_retries_loop func a b s = (Inr v, s)"
  by (subst with_retries_loop.simps) simp

lemma loop_rate:
  "func a = Raises e \<Longrightarrow> is_rate_limit (str_exn e) \<Longrightarrow>
   with_retries_loop func a b s =
     (if 4 \<le> a then (Inl e, s) else with_retries_loop func (Suc a) (b * 2) (s @ [b]))"
  by (subst with_retries_loop.simps) simp

lemma loop_other:
  "func a = Raises e \<Longrightarrow> \<not> is_rate_limit (str_exn e) \<Longrightarrow>
   with_retries_loop func a b s =
     (if 2 \<le> a then (Inl e, s) else with_retries_loop func (Suc a) (b * 2) (s @ [b]))"
  by (subst with_retries_loop.simps) simp

lemma below_five:
  "(n::nat) < 5 \<Longrightarrow>
   n = 0 \<or> n = Suc 0 \<or> n = Suc (Suc 0) \<or> n = Suc (Suc (Suc 0)) \<or> n = Suc (Suc (Suc (Suc 0)))"
  by arith

lemma below_three: "(n::nat) < 3 \<Longrightarrow> n = 0 \<or> n = Suc 0 \<or> n = Suc (Suc 0)"
  by arith

lemma rate_then_return:
  assumes "n < 5"
    and "\<forall>k<n. func k = Raises (errs k) \<and> is_rate_limit (str_exn (errs k))"
    and "func n = Returns v"
  shows "with_retries func = (Inr v, take n [1, 2, 4, 8])"
  using below_five [OF assms(1)] assms(2,3)
  by (elim disjE) (simp_all add: with_retries_def loop_returns loop_rate)

lemma rate_exhausted:
  assumes "\<forall>k<5. func k = Raises (errs k) \<and> is_rate_limit (str_exn (errs k))"
  shows "with_retries func = (Inl (errs 4), [1, 2, 4, 8])"
proof -
  have "\<forall>k<Suc (Suc (Suc (Suc (Suc 0)))).
          func k = Raises (errs k) \<and> is_rate_limit (str_exn (errs k))"
    using assms by (simp add: eval_nat_numeral)
  moreover have "errs 4 = errs (Suc (Suc (Suc (Suc 0))))"
    by (simp add: eval_nat_numeral)
  ultimately show ?thesis
    by (simp add: with_retries_def loop_rate)
qed

lemma other_then_return:
  assumes "n < 3"
    and "\<forall>k<n. func k = Raises (errs k) \<and> \<not> is_rate_limit (str_exn (errs k))"
    and "func n = Returns v"
  shows "with_retries func = (Inr v, take n [1, 2])"
  using below_three [OF assms(1)] assms(2,3)
  by (elim disjE) (simp_all add: with_retries_def loop_returns loop_other)

lemma other_exhausted:
  assumes "\<forall>k<3. func k = Raises (errs k) \<and> \<not> is_rate_limit (str_exn (errs k))"
  shows "with_retries func = (Inl (errs 2), [1, 2])"
proof -
  have "\<forall>k<Suc (Suc (Suc 0)).
          func k = Raises (errs k) \<and> \<not> is_rate_limit (str_exn (errs k))"
    using assms by (simp add: eval_nat_numeral)
  moreover have "errs 2 = errs (Suc (Suc 0))"
    by (simp add: eval_nat_numeral)
  ultimately show ?thesis
    by (simp add: with_retries_def loop_other)
qed

text \<open>
  C2 (as the code has it). The wrapped call is made at most five times when its failures
  are rate-limit errors and at most three times when they are of another kind: the first
  call and up to four, respectively two, retries. Before retry number \<open>i\<close> the loop sleeps
  \<open>2 ^ (i - 1)\<close> seconds, so the sleeps are a prefix of 1, 2, 4, 8 (of 1, 2). A call that
  succeeds ends the loop with its value. The fifth rate-limit failure, respectively the
  third failure of another kind, is raised to the caller without a further sleep.
  Here \<open>errs k\<close> is the error that invocation \<open>k\<close> raises.
\<close>

theorem with_retries_policy:
  "(n < 5 \<and> (\<forall>k<n. func k = Raises (errs k) \<and> is_rate_limit (str_exn (errs k))) \<and>
      func n = Returns v
      \<longrightarrow> with_retries func = (Inr v, take n [1, 2, 4, 8])) \<and>
   ((\<forall>k<5. func k = Raises (errs k) \<and> is_rate_limit (str_exn (errs k)))
      \<longrightarrow> with_retries func = (Inl (errs 4), [1, 2, 4, 8])) \<and>
   (n < 3 \<and> (\<forall>k<n. func k = Raises (errs k) \<and> \<not> is_rate_limit (str_exn (errs k))) \<and>
      func n = Returns v
      \<longrightarrow> with_retries func = (Inr v, take n [1, 2])) \<and>
   ((\<forall>k<3. func k = Raises (errs k) \<and> \<not> is_rate_limit (str_exn (errs k)))
      \<longrightarrow> with_retries func = (Inl (errs 2), [1, 2]))"
  using rate_then_return [of n func errs v] rate_exhausted [of func errs]
    other_then_return [of n func errs v] other_exhausted [of func errs]
  by blast

theorem with_retries_policy_witness:
  "with_retries (\<lambda>k. if k < 3 then Raises (Exception ''Rate limit reached'') else Returns (7::nat))
     = (Inr 7, [1, 2, 4]) \<and>
   with_retries (\<lambda>k. (Raises (Exception ''Quota exceeded'') :: nat outcome))
     = (Inl (Exception ''Quota exceeded''), [1, 2, 4, 8]) \<and>
   with_retries (\<lambda>k. if k < 1 then Raises (ValueError ''boom'') else Returns (7::nat))
     = (Inr 7, [1]) \<and>
   with_retries (\<lambda>k. (Raises (ValueError ''boom'') :: nat outcome))
     = (Inl (ValueError ''boom''), [1, 2])"
proof -
  have r: "is_rate_limit (str_exn (Exception ''Rate limit reached''))"
    "is_rate_limit (str_exn (Exception ''Quota exceeded''))"
    "\<not> is_rate_limit (str_exn (ValueError ''boom''))"
    by code_simp+
  have "with_retries (\<lambda>k. if k < 3 then Raises (Exception ''Rate limit reached'') else Returns (7::nat))
     = (Inr 7, [1, 2, 4])"
    using with_retries_policy [of 3 "\<lambda>k. if k < 3 then Raises (Exception ''Rate limit reached'') else Returns (7::nat)"
        "\<lambda>k. Exception ''Rate limit reached''" 7] r
    by simp
  moreover have "with_retries (\<lambda>k. (Raises (Exception ''Quota exceeded'') :: nat outcome))
     = (Inl (Exception ''Quota exceeded''), [1, 2, 4, 8])"
    using with_retries_policy [of 0 "\<lambda>k. (Raises (Exception ''Quota exceeded'') :: nat outcome)"
        "\<lambda>k. Exception ''Quota exceeded''" 0] r
    by simp
  moreover have "with_retries (\<lambda>k. if k < 1 then Raises (ValueError ''boom'') else Returns (7::nat))
     = (Inr 7, [1])"
    using with_retries_policy [of 1 "\<lambda>k. if k < 1 then Raises (ValueError ''boom'') else Returns (7::nat)"
        "\<lambda>k. ValueError ''boom''" 7] r
    by simp
  moreover have "with_retries (\<lambda>k. (Raises (ValueError ''boom'') :: nat outcome))
     = (Inl (ValueError ''boom''), [1, 2])"
    using with_retries_policy [of 0 "\<lambda>k. (Raises (ValueError ''boom'') :: nat outcome)"
        "\<lambda>k. ValueError ''boom''" 0] r
    by simp
  ultimately show ?thesis by blast
qed

text \<open>
  C2 as stated fails: a call that fails five times with a rate-limit error and would
  succeed on the sixth invocation (the fifth retry) is not retried a fifth time; the
  fifth error is raised after four sleeps. A call that fails three times with another
  error and would succeed on the fourth invocation is not retried a third time.
\<close>

theorem with_retries_fifth_retry_never_made:
  "with_retries (\<lambda>k. if k < 5 then Raises (Exception ''429 Too Many Requests'') else Returns (7::nat))
     = (Inl (Exception ''429 Too Many Requests''), [1, 2, 4, 8]) \<and>
   with_retries (\<lambda>k. if k < 3 then Raises (ValueError ''boom'') else Returns (7::nat))
     = (Inl (ValueError ''boom''), [1, 2])"
  by code_simp

section \<open>Properties of the answer generator\<close>

lemma strip_blank: "\<forall>c \<in> set s. is_space c \<Longrightarrow> py_strip s = []"
  by (auto simp add: py_strip_def dropWhile_eq_Nil_conv dest: set_dropWhileD)

lemma generate_answer_cases:
  "gc (build_prompt q chunks) = Inr resp \<Longrightarrow>
   generate_answer gc q chunks =
     (if refusal_detected resp then Inr refusal else extract_answer resp)"
  by (auto simp add: generate_answer_def refusal_detected_def first_finish_reason_def
      is_safety_def split: option.splits list.splits)

text \<open>
  C6. The finish reasons of the generation library are members of an integer enumeration
  in which SAFETY has the value 3 and MAX\_TOKENS the value 2; the string form of a member
  is its qualified name \<^verbatim>\<open>FinishReason.SAFETY\<close>, or its number under newer interpreters.
  The test of the generator, equal to 2 or string form \<^verbatim>\<open>SAFETY\<close> once upper-cased,
  therefore misses the safety refusal of the library: the raw text of the response is
  returned, or the error that reading the text of a blocked response raises, and never the
  fixed refusal string. A response cut off by the token limit is answered by the refusal
  string instead.
\<close>

theorem generate_answer_sdk_safety_not_refused:
  "generate_answer
     (\<lambda>p. Inr (example_response (Some (FREnum 3 ''FinishReason.SAFETY'')) (TextStr ''raw model text'')))
     ''why?'' [] = Inr ''raw model text'' \<and>
   generate_answer
     (\<lambda>p. Inr (example_response (Some (FREnum 3 ''3'')) (TextStr ''raw model text'')))
     ''why?'' [] = Inr ''raw model text'' \<and>
   generate_answer
     (\<lambda>p. Inr (example_response (Some (FREnum 3 ''FinishReason.SAFETY''))
            (TextRaises (ValueError ''response.text requires a valid Part''))))
     ''why?'' [] = Inl (ValueError ''response.text requires a valid Part'') \<and>
   generate_answer
     (\<lambda>p. Inr (example_response (Some (FREnum 2 ''FinishReason.MAX_TOKENS'')) (TextStr ''a partial answer'')))
     ''why?'' [] = Inr ''I cannot answer this question based on the provided context.''"
  by code_simp

text \<open>
  C7 (as the code has it). The generator raises nothing of its own for an empty or
  malformed response. An error of the model call is passed on. When the finish reason of
  the first candidate passes the test of the generator (equal to 2, or \<^verbatim>\<open>SAFETY\<close> as an
  upper-cased string), the refusal string is returned whatever the text is. In every other
  case the stripped text is returned: the empty string when the response has no text
  attribute, or when its text is empty or only whitespace. The only errors that reach the
  caller are that of the model call, the one raised by reading the text, and the attribute
  error of stripping a text that is None.
\<close>

theorem generate_answer_outcomes:
  "(\<forall>e. gc (build_prompt q chunks) = Inl e \<longrightarrow> generate_answer gc q chunks = Inl e) \<and>
   (\<forall>resp. gc (build_prompt q chunks) = Inr resp \<longrightarrow>
      (refusal_detected resp \<longrightarrow> generate_answer gc q chunks = Inr refusal) \<and>
      (\<not> refusal_detected resp \<longrightarrow>
         (resp_text resp = TextMissing \<longrightarrow> generate_answer gc q chunks = Inr []) \<and>
         (\<forall>s. resp_text resp = TextStr s \<longrightarrow>
            generate_answer gc q chunks = Inr (py_strip s) \<and>
            ((\<forall>c \<in> set s. is_space c) \<longrightarrow> generate_answer gc q chunks = Inr [])) \<and>
         (resp_text resp = TextNone \<longrightarrow> generate_answer gc q chunks = Inl none_has_no_strip) \<and>
         (\<forall>e. resp_text resp = TextRaises e \<longrightarrow> generate_answer gc q chunks = Inl e))) \<and>
   (\<forall>e. generate_answer gc q chunks = Inl e \<longrightarrow>
      gc (build_prompt q chunks) = Inl e \<or>
      (\<exists>resp. gc (build_prompt q chunks) = Inr resp \<and> \<not> refusal_detected resp \<and>
         (resp_text resp = TextNone \<and> e = none_has_no_strip \<or> resp_text resp = TextRaises e)))"
proof -
  have 1: "\<forall>e. gc (build_prompt q chunks) = Inl e \<longrightarrow> generate_answer gc q chunks = Inl e"
    by (simp add: generate_answer_def)
  have 2: "\<forall>resp. gc (build_prompt q chunks) = Inr resp \<longrightarrow>
      (refusal_detected resp \<longrightarrow> generate_answer gc q chunks = Inr refusal) \<and>
      (\<not> refusal_detected resp \<longrightarrow>
         (resp_text resp = TextMissing \<longrightarrow> generate_answer gc q chunks = Inr []) \<and>
         (\<forall>s. resp_text resp = TextStr s \<longrightarrow>
            generate_answer gc q chunks = Inr (py_strip s) \<and>
            ((\<forall>c \<in> set s. is_space c) \<longrightarrow> generate_answer gc q chunks = Inr [])) \<and>
         (resp_text resp = TextNone \<longrightarrow> generate_answer gc q chunks = Inl none_has_no_strip) \<and>
         (\<forall>e. resp_text resp = TextRaises e \<longrightarrow> generate_answer gc q chunks = Inl e))"
    by (auto simp add: generate_answer_cases extract_answer_def strip_blank)
  have 3: "\<forall>e. generate_answer gc q chunks = Inl e \<longrightarrow>
      gc (build_prompt q chunks) = Inl e \<or>
      (\<exists>resp. gc (build_prompt q chunks) = Inr resp \<and> \<not> refusal_detected resp \<and>
         (resp_text resp = TextNone \<and> e = none_has_no_strip \<or> resp_text resp = TextRaises e))"
  proof (cases "gc (build_prompt q chunks)")
    case (Inl e')
    then show ?thesis by (simp add: generate_answer_def)
  next
    case (Inr resp)
    then show ?thesis
      by (cases "resp_text resp")
        (auto simp add: generate_answer_cases extract_answer_def split: if_splits)
  qed
  from 1 2 3 show ?thesis by blast
qed

theorem generate_answer_outcomes_witness:
  "generate_answer (\<lambda>p. Inr (example_response (Some (FRInt 1)) (TextStr '' \<newline>''))) ''why?'' [] = Inr [] \<and>
   generate_answer (\<lambda>p. Inr (example_response None (TextRaises (ValueError ''no parts'')))) ''why?'' []
     = Inl (ValueError ''no parts'') \<and>
   generate_answer (\<lambda>p. Inr (example_response (Some (FRInt 1)) TextNone)) ''why?'' []
     = Inl none_has_no_strip \<and>
   generate_answer (\<lambda>p. Inr (example_response (Some (FREnum 2 ''FinishReason.MAX_TOKENS'')) (TextStr [])))
     ''why?'' [] = Inr refusal \<and>
   generate_answer (\<lambda>p. Inl (Exception ''503 unavailable'')) ''why?'' [] = Inl (Exception ''503 unavailable'')"
proof -
  have a: "\<not> refusal_detected (example_response (Some (FRInt 1)) (TextStr '' \<newline>''))"
    "\<not> refusal_detected (example_response None (TextRaises (ValueError ''no parts'')))"
    "\<not> refusal_detected (example_response (Some (FRInt 1)) TextNone)"
    "refusal_detected (example_response (Some (FREnum 2 ''FinishReason.MAX_TOKENS'')) (TextStr []))"
    "\<forall>c \<in> set '' \<newline>''. is_space c"
    by code_simp+
  have t: "resp_text (example_response (Some (FRInt 1)) (TextStr '' \<newline>'')) = TextStr '' \<newline>''"
    "resp_text (example_response None (TextRaises (ValueError ''no parts''))) = TextRaises (ValueError ''no parts'')"
    "resp_text (example_response (Some (FRInt 1)) TextNone) = TextNone"
    by (simp_all add: example_response_def)
  have 1: "generate_answer (\<lambda>p. Inr (example_response (Some (FRInt 1)) (TextStr '' \<newline>''))) ''why?'' [] = Inr []"
    using generate_answer_outcomes
      [where gc = "\<lambda>p. Inr (example_response (Some (FRInt 1)) (TextStr '' \<newline>''))"
        and q = "''why?''" and chunks = "[]"] a(1) a(5) t(1)
    by blast
  have 2: "generate_answer (\<lambda>p. Inr (example_response None (TextRaises (ValueError ''no parts'')))) ''why?'' []
     = Inl (ValueError ''no parts'')"
    using generate_answer_outcomes
      [where gc = "\<lambda>p. Inr (example_response None (TextRaises (ValueError ''no parts'')))"
        and q = "''why?''" and chunks = "[]"] a(2) t(2)
    by blast
  have 3: "generate_answer (\<lambda>p. Inr (example_response (Some (FRInt 1)) TextNone)) ''why?'' []
     = Inl none_has_no_strip"
    using generate_answer_outcomes
      [where gc = "\<lambda>p. Inr (example_response (Some (FRInt 1)) TextNone)"
        and q = "''why?''" and chunks = "[]"] a(3) t(3)
    by blast
  have 4: "generate_answer (\<lambda>p. Inr (example_response (Some (FREnum 2 ''FinishReason.MAX_TOKENS'')) (TextStr [])))
     ''why?'' [] = Inr refusal"
    using generate_answer_outcomes
      [where gc = "\<lambda>p. Inr (example_response (Some (FREnum 2 ''FinishReason.MAX_TOKENS'')) (TextStr []))"
        and q = "''why?''" and chunks = "[]"] a(4)
    by blast
  have 5: "generate_answer (\<lambda>p. Inl (Exception ''503 unavailable'')) ''why?'' [] = Inl (Exception ''503 unavailable'')"
    using generate_answer_outcomes
      [where gc = "\<lambda>p. Inl (Exception ''503 unavailable'')" and q = "''why?''" and chunks = "[]"]
    by blast
  from 1 2 3 4 5 show ?thesis by blast
qed

text \<open>
  C7 as stated fails: a response that finished normally with the empty text, and a
  malformed response with neither candidates nor text, both make the generator return the
  empty string; nothing is raised.
\<close>

theorem generate_answer_empty_returns:
  "generate_answer (\<lambda>p. Inr (example_response (Some (FREnum 1 ''STOP'')) (TextStr ''''))) ''why?'' [] = Inr '''' \<and>
   generate_answer (\<lambda>p. Inr \<lparr>resp_candidates = None, resp_text = TextMissing\<rparr>) ''why?'' [] = Inr ''''"
  by code_simp

section \<open>Properties of the query orchestrator\<close>

text \<open>
  C4 (as the code has it). The embedding method returns the vector found under
  \<^verbatim>\<open>embedding\<close> in the response of the embedding service (the empty vector when the key is
  absent) without looking at its length, or raises the error left when the retries are
  used up. The orchestrator rejects with a 500 error every query vector whose length is
  not 1536, after the embedding stage and before the index is searched.
\<close>

theorem embed_query_unchecked_orchestrator_checks:
  "(with_retries (embed_content world
        \<lparr>req_model = EMBEDDING_MODEL cfg, req_content = query_text,
         req_task_type = ''retrieval_query'',
         req_output_dimensionality = EMBEDDING_DIMENSIONS cfg\<rparr>) = (Inr resp, slept)
      \<longrightarrow> fst (embed_query cfg world query_text) =
            Inr (case resp ''embedding'' of None \<Rightarrow> [] | Some v \<Rightarrow> v)) \<and>
   (with_retries (embed_content world
        \<lparr>req_model = EMBEDDING_MODEL cfg, req_content = query_text,
         req_task_type = ''retrieval_query'',
         req_output_dimensionality = EMBEDDING_DIMENSIONS cfg\<rparr>) = (Inl e, slept)
      \<longrightarrow> fst (embed_query cfg world query_text) = Inl e) \<and>
   (embeddings_init world = None \<and> qdrant_init world = None \<and> llm_init world = None \<and>
    fst (embed_query cfg world (question request)) = Inr v \<and> length v \<noteq> 1536
      \<longrightarrow> query_knowledge_base cfg world request =
            (Inl (HTTPException 500 ''Embedding service returned invalid dimension''),
             [EmbedStage]))"
  by (auto simp add: embed_query_def query_knowledge_base_def internal_error_def
      split: option.splits)

theorem embed_query_unchecked_orchestrator_checks_witness:
  "fst (embed_query example_settings
          (example_world [1, 2, 3] [] (example_response None TextMissing)) ''what is rag?'')
     = Inr [1, 2, 3] \<and>
   fst (embed_query example_settings (failing_world (ValueError ''boom'')) ''what is rag?'')
     = Inl (ValueError ''boom'') \<and>
   query_knowledge_base example_settings
       (example_world [1, 2, 3] [] (example_response None TextMissing)) example_request
     = (Inl (HTTPException 500 ''Embedding service returned invalid dimension''), [EmbedStage])"
proof -
  let ?w = "example_world [1, 2, 3] [] (example_response None TextMissing)"
  let ?f = "failing_world (ValueError ''boom'')"
  have w: "with_retries (embed_content ?w
        \<lparr>req_model = EMBEDDING_MODEL example_settings, req_content = ''what is rag?'',
         req_task_type = ''retrieval_query'',
         req_output_dimensionality = EMBEDDING_DIMENSIONS example_settings\<rparr>)
        = (Inr [''embedding'' \<mapsto> [1, 2, 3]], [])"
    by (simp add: example_world_def with_retries_def with_retries_loop.simps)
  have "\<not> is_rate_limit (str_exn (ValueError ''boom''))" by code_simp
  then have f: "with_retries (embed_content ?f
        \<lparr>req_model = EMBEDDING_MODEL example_settings, req_content = ''what is rag?'',
         req_task_type = ''retrieval_query'',
         req_output_dimensionality = EMBEDDING_DIMENSIONS example_settings\<rparr>)
        = (Inl (ValueError ''boom''), [1, 2])"
    by (simp add: failing_world_def with_retries_def with_retries_loop.simps)
  have 1: "fst (embed_query example_settings ?w ''what is rag?'') = Inr [1, 2, 3]"
    using embed_query_unchecked_orchestrator_checks [where world = "?w" and cfg = example_settings
        and query_text = "''what is rag?''" and resp = "[''embedding'' \<mapsto> [1, 2, 3]]" and slept = "[]"] w
    by simp
  have 2: "fst (embed_query example_settings ?f ''what is rag?'') = Inl (ValueError ''boom'')"
    using embed_query_unchecked_orchestrator_checks [where world = "?f" and cfg = example_settings
        and query_text = "''what is rag?''" and e = "ValueError ''boom''" and slept = "[1, 2]"] f
    by simp
  have 3: "query_knowledge_base example_settings ?w example_request
     = (Inl (HTTPException 500 ''Embedding service returned invalid dimension''), [EmbedStage])"
    using embed_query_unchecked_orchestrator_checks [where world = "?w" and cfg = example_settings
        and request = example_request and v = "[1, 2, 3]"] 1
    by (simp add: example_world_def example_request_def)
  from 1 2 3 show ?thesis by blast
qed

text \<open>
  C4 as stated fails: with the dimensionality configured as 1536, a service response that
  carries a vector of length three makes the embedding method return that vector; it
  neither has length 1536 nor is an error raised.
\<close>

theorem embed_query_returns_short_vector:
  "EMBEDDING_DIMENSIONS example_settings = 1536 \<and>
   fst (embed_query example_settings (example_world [1, 2, 3] [] (example_response None TextMissing))
          ''what is rag?'') = Inr [1, 2, 3] \<and>
   length [1, 2, 3 :: real] \<noteq> 1536"
  by (simp add: embed_query_def example_settings_def example_world_def with_retries_def
      with_retries_loop.simps)

text \<open>
  C8. When the clients are constructed, the question embeds to a vector of length 1536
  and the search returns no hit, the orchestrator answers with the 404 exception
  \<^verbatim>\<open>No relevant documents found\<close>, not a 500 error, and the answer generator is never
  called.
\<close>

theorem no_results_not_found:
  assumes "embeddings_init world = None" and "qdrant_init world = None"
    and "llm_init world = None"
    and "fst (embed_query cfg world (question request)) = Inr v" and "length v = 1536"
    and "search cfg world v (top_k request) (filters request) = Inr []"
  shows "query_knowledge_base cfg world request =
           (Inl (HTTPException 404
                  ''No relevant documents found. Please ingest URLs first using POST /ingest-url''),
            [EmbedStage, SearchStage]) \<and>
         GenerateStage \<notin> set (snd (query_knowledge_base cfg world request))"
proof -
  have "v \<noteq> []" using assms(5) by auto
  then show ?thesis
    using assms by (simp add: query_knowledge_base_def)
qed

theorem no_results_not_found_witness:
  "query_knowledge_base example_settings
       (example_world (replicate 1536 0) [] (example_response None TextMissing)) example_request
     = (Inl (HTTPException 404
              ''No relevant documents found. Please ingest URLs first using POST /ingest-url''),
        [EmbedStage, SearchStage])"
proof -
  let ?w = "example_world (replicate 1536 0) [] (example_response None TextMissing)"
  have e: "fst (embed_query example_settings ?w (question example_request)) = Inr (replicate 1536 0)"
    by (simp add: embed_query_def example_world_def with_retries_def with_retries_loop.simps)
  have s: "search example_settings ?w (replicate 1536 0) (top_k example_request)
             (filters example_request) = Inr []"
    by (simp add: search_def example_world_def example_request_def)
  show ?thesis
    using no_results_not_found [where world = "?w" and cfg = example_settings
        and request = example_request and v = "replicate 1536 0"] e s
    by (simp add: example_world_def)
qed

section \<open>Properties of the job ledger\<close>

lemma reachable_ok: "reachable rows \<Longrightarrow> table_ok rows"
proof (induction rule: reachable.induct)
  case empty
  then show ?case by (simp add: table_ok_def)
next
  case (create rows new_id now url metadata rows' job)
  then show ?case by (auto simp add: create_job_def Let_def split: if_splits)
next
  case (update rows now job_id status kwargs rows' res)
  then show ?case
    by (auto simp add: update_job_status_def Let_def split: if_splits option.splits)
next
  case (update_sync rows job_id status kwargs rows' res)
  then show ?case
    by (auto simp add: update_job_status_sync_def sql_update_def Let_def
        split: if_splits option.splits)
qed

lemma assign_other: "c \<notin> fst ` set cs \<Longrightarrow> assign cs r c = r c"
  by (induction cs arbitrary: r) auto

lemma assign_written: "distinct (map fst cs) \<Longrightarrow> (c, v) \<in> set cs \<Longrightarrow> assign cs r c = v"
proof (induction cs arbitrary: r)
  case Nil
  then show ?case by simp
next
  case (Cons a cs)
  obtain c' v' where a: "a = (c', v')" by (cases a)
  show ?case
  proof (cases "(c, v) = a")
    case True
    then have "c \<notin> fst ` set cs" using Cons.prems(1) by force
    then show ?thesis using True a by (auto simp add: assign_other)
  next
    case False
    then show ?thesis using Cons a by auto
  qed
qed

lemma field_clauses_cols:
  "fst ` set (field_clauses fs kwargs) = {col. \<exists>k. (k, col) \<in> set fs \<and> k \<in> fst ` set kwargs}"
proof (induction fs)
  case Nil
  then show ?case by simp
next
  case (Cons a fs)
  obtain k col where a: "a = (k, col)" by (cases a)
  show ?case
  proof (cases "map_of kwargs k")
    case None
    then have "k \<notin> fst ` set kwargs" by (simp add: map_of_eq_None_iff)
    then show ?thesis using Cons None a by auto
  next
    case (Some v)
    then have "k \<in> fst ` set kwargs" using map_of_SomeD [OF Some] by force
    then show ?thesis using Cons Some a by auto
  qed
qed

lemma field_clauses_value:
  "(k, col) \<in> set fs \<Longrightarrow> map_of kwargs k = Some v \<Longrightarrow> (col, v) \<in> set (field_clauses fs kwargs)"
  by (induction fs) (auto split: option.splits)

lemma field_clauses_member:
  "(col, v) \<in> set (field_clauses fs kwargs) \<Longrightarrow> col \<in> snd ` set fs"
  by (induction fs) (auto split: option.splits)

lemma field_clauses_subset:
  "fst ` set (field_clauses fs kwargs) \<subseteq> snd ` set fs"
  using field_clauses_member by fastforce

lemma field_clauses_distinct:
  "distinct (map snd fs) \<Longrightarrow> distinct (map fst (field_clauses fs kwargs))"
proof (induction fs)
  case Nil
  then show ?case by simp
next
  case (Cons a fs)
  obtain k col where a: "a = (k, col)" by (cases a)
  have "col \<notin> fst ` set (field_clauses fs kwargs)"
    using field_clauses_subset [of fs kwargs] Cons.prems a by auto
  then show ?case using Cons a by (auto split: option.splits)
qed

lemma mapping_cols:
  "distinct (map snd mapping_fields)" "Status \<notin> snd ` set mapping_fields"
  "Metadata \<notin> snd ` set mapping_fields"
  by (simp_all add: mapping_fields_def)

lemma recognized_fields: "recognized = mapping_fields @ [(''metadata'', Metadata)]"
  by (simp add: recognized_def mapping_fields_def)

lemma set_clauses_distinct: "distinct (map fst (set_clauses status kwargs))"
  using field_clauses_subset [of mapping_fields kwargs] mapping_cols
    field_clauses_distinct [of mapping_fields kwargs]
  by (auto simp add: set_clauses_def split: option.splits)

lemma set_clauses_cols:
  "fst ` set (set_clauses status kwargs) =
     insert Status {col. \<exists>k. (k, col) \<in> set recognized \<and> k \<in> fst ` set kwargs}"
proof -
  let ?K = "fst ` set kwargs"
  let ?M = "if ''metadata'' \<in> ?K then {Metadata} else {}"
  have m: "(map_of kwargs ''metadata'' = None) = (''metadata'' \<notin> ?K)"
    by (simp add: map_of_eq_None_iff)
  have l: "fst ` set (set_clauses status kwargs) =
      insert Status (fst ` set (field_clauses mapping_fields kwargs) \<union> ?M)"
  proof (cases "map_of kwargs ''metadata''")
    case None
    then show ?thesis using m by (simp add: set_clauses_def image_Un)
  next
    case (Some v)
    then show ?thesis using m by (simp add: set_clauses_def image_Un)
  qed
  have r: "{col. \<exists>k. (k, col) \<in> set recognized \<and> k \<in> ?K} =
      {col. \<exists>k. (k, col) \<in> set mapping_fields \<and> k \<in> ?K} \<union> ?M"
    by (auto simp add: recognized_fields intro: rev_image_eqI)
  show ?thesis
    unfolding l r field_clauses_cols by simp
qed

lemma set_clauses_value:
  "(k, col) \<in> set recognized \<Longrightarrow> map_of kwargs k = Some v \<Longrightarrow>
   (col, v) \<in> set (set_clauses status kwargs)"
  by (auto simp add: set_clauses_def recognized_fields field_clauses_value)

lemma map_of_filter_keys:
  "k \<in> K \<Longrightarrow> map_of (filter (\<lambda>kv. fst kv \<in> K) kwargs) k = map_of kwargs k"
  by (induction kwargs) auto

lemma field_clauses_filter:
  "fst ` set fs \<subseteq> K \<Longrightarrow>
   field_clauses fs (filter (\<lambda>kv. fst kv \<in> K) kwargs) = field_clauses fs kwargs"
  by (induction fs) (auto simp add: map_of_filter_keys split: option.splits)

lemma set_clauses_filter:
  "set_clauses status (filter (\<lambda>kv. fst kv \<in> fst ` set recognized) kwargs) =
   set_clauses status kwargs"
proof -
  have "fst ` set mapping_fields \<subseteq> fst ` set recognized" "''metadata'' \<in> fst ` set recognized"
    by (auto simp add: recognized_fields)
  then show ?thesis
    by (simp add: set_clauses_def field_clauses_filter map_of_filter_keys)
qed

lemma sync_ignores_unrecognized:
  "update_job_status_sync rows job_id status
     (filter (\<lambda>kv. fst kv \<in> fst ` set recognized) kwargs) =
   update_job_status_sync rows job_id status kwargs"
proof -
  have "''metadata'' \<in> fst ` set recognized" by (auto simp add: recognized_fields)
  then show ?thesis
    by (simp add: update_job_status_sync_def set_clauses_filter map_of_filter_keys
        split: option.splits)
qed

lemma sync_rows:
  assumes "update_job_status_sync rows job_id status kwargs = Inr (rows', res)"
  shows "rows' = map (\<lambda>r. if r Id = PStr job_id then assign (set_clauses status kwargs) r else r) rows"
  using assms
  by (auto simp add: update_job_status_sync_def sql_update_def Let_def
      split: option.splits if_splits)

lemma example_job_ok: "table_ok [example_job]"
  by (simp add: table_ok_def row_ok_def example_job_def new_job_def allowed_statuses_def
      not_nullable_def)

lemma set_attributes_completed_at:
  "set_attributes kwargs job Completed_at =
     (case map_of (rev kwargs) ''completed_at'' of None \<Rightarrow> job Completed_at | Some v \<Rightarrow> v)"
proof (induction kwargs arbitrary: job)
  case Nil
  then show ?case by simp
next
  case (Cons a kwargs)
  obtain k v where a: "a = (k, v)" by (cases a)
  have c: "attr_column k = Some Completed_at \<longleftrightarrow> k = ''completed_at''"
    by (auto simp add: attr_column_def split: if_splits)
  show ?case
  proof (cases "k = ''completed_at''")
    case True
    then show ?thesis
      using Cons a c by (simp add: map_add_def split: option.splits)
  next
    case False
    then have "\<And>col. attr_column k = Some col \<Longrightarrow> col \<noteq> Completed_at"
      using c by auto
    then show ?thesis
      using Cons a False by (auto simp add: map_add_def split: option.splits)
  qed
qed

lemma flush_completed_at: "flush now old job Completed_at = job Completed_at"
  by (simp add: flush_def)

lemma update_completed_at:
  assumes "update_job_status rows now job_id status kwargs = Inr (rows', Some job)"
    and "get_job_by_id rows job_id = Some old"
  shows "job Completed_at =
     (case map_of (rev kwargs) ''completed_at'' of None \<Rightarrow> old Completed_at | Some v \<Rightarrow> v)"
  using assms
  by (auto simp add: update_job_status_def Let_def flush_completed_at
      set_attributes_completed_at split: if_splits option.splits)

lemma sync_completed_at:
  assumes "update_job_status_sync rows job_id status kwargs = Inr (rows', Some job)"
    and "get_job_by_id rows job_id = Some old"
  shows "job Completed_at =
     (case map_of kwargs ''completed_at'' of None \<Rightarrow> old Completed_at | Some v \<Rightarrow> v)"
proof -
  have j: "job = assign (set_clauses status kwargs) old"
    using assms
    by (auto simp add: update_job_status_sync_def sql_update_def Let_def get_job_by_id_def
        split: if_splits option.splits list.splits)
  have rec: "(''completed_at'', Completed_at) \<in> set recognized"
    by (simp add: recognized_def)
  show ?thesis
  proof (cases "map_of kwargs ''completed_at''")
    case None
    then have "''completed_at'' \<notin> fst ` set kwargs" by (simp add: map_of_eq_None_iff)
    moreover have "\<And>k. (k, Completed_at) \<in> set recognized \<Longrightarrow> k = ''completed_at''"
      by (auto simp add: recognized_def)
    ultimately have "Completed_at \<notin> fst ` set (set_clauses status kwargs)"
      unfolding set_clauses_cols by (auto intro: rev_image_eqI)
    then show ?thesis using None j by (simp add: assign_other)
  next
    case (Some v)
    then show ?thesis
      using j assign_written [OF set_clauses_distinct set_clauses_value [OF rec Some]]
      by simp
  qed
qed

lemma create_example:
  "create_job [] ''job-1'' 10 ''https://example.com/article'' None = Inr ([example_job], example_job)"
  using example_job_ok by (simp add: create_job_def example_job_def Let_def)

lemma reachable_example: "reachable [example_job]"
  using reachable.create [OF reachable.empty create_example] .

lemma get_example: "get_job_by_id [example_job] ''job-1'' = Some example_job"
  by (simp add: get_job_by_id_def example_job_def new_job_def)

text \<open>
  C10. Frame of \<open>update_job_status_sync\<close>. The columns named in the SET clause are the
  status column together with exactly those columns of the recognized set (started_at,
  completed_at, chunk_count, error_message, error_traceback, celery_task_id, total_tokens,
  processing_time_seconds, metadata) whose key occurs among the keyword arguments. When the
  update succeeds, the table keeps its length; in each row matched by the job id the status
  column holds the new status, each recognized column that was passed holds the passed value,
  and every column outside the SET clause keeps its old value; rows that are not matched are
  not touched. Keyword arguments outside the recognized set make no difference at all: the
  call behaves exactly as the call without them, so they raise no error of their own.
\<close>

theorem update_job_status_sync_frame:
  "fst ` set (set_clauses status kwargs) =
     insert Status {col. \<exists>k. (k, col) \<in> set recognized \<and> k \<in> fst ` set kwargs} \<and>
   (update_job_status_sync rows job_id status kwargs = Inr (rows', res) \<longrightarrow>
      length rows' = length rows \<and>
      (\<forall>i < length rows.
         ((rows ! i) Id = PStr job_id \<longrightarrow>
            (rows' ! i) Status = PStr status \<and>
            (\<forall>k col v. (k, col) \<in> set recognized \<and> map_of kwargs k = Some v
                 \<longrightarrow> (rows' ! i) col = v) \<and>
            (\<forall>c. c \<notin> fst ` set (set_clauses status kwargs)
                 \<longrightarrow> (rows' ! i) c = (rows ! i) c)) \<and>
         ((rows ! i) Id \<noteq> PStr job_id \<longrightarrow> rows' ! i = rows ! i))) \<and>
   update_job_status_sync rows job_id status
     (filter (\<lambda>kv. fst kv \<in> fst ` set recognized) kwargs) =
   update_job_status_sync rows job_id status kwargs"
proof -
  have st: "(Status, PStr status) \<in> set (set_clauses status kwargs)"
    by (simp add: set_clauses_def)
  have "\<And>r. assign (set_clauses status kwargs) r Status = PStr status"
    using assign_written [OF set_clauses_distinct st] by simp
  moreover have "\<And>r k col v. (k, col) \<in> set recognized \<Longrightarrow> map_of kwargs k = Some v \<Longrightarrow>
      assign (set_clauses status kwargs) r col = v"
    using assign_written [OF set_clauses_distinct set_clauses_value] by simp
  ultimately show ?thesis
    using set_clauses_cols [of status kwargs] sync_ignores_unrecognized [of rows job_id status kwargs]
      sync_rows [of rows job_id status kwargs rows' res]
    by (auto simp add: assign_other)
qed

theorem update_job_status_sync_frame_witness:
  "case update_job_status_sync [example_job] ''job-1'' ''completed''
          [(''started_at'', PTime 12), (''completed_at'', PTime 30), (''chunk_count'', PInt 3),
           (''error_message'', PStr ''none''), (''error_traceback'', PStr ''empty''),
           (''celery_task_id'', PStr ''task-9''), (''total_tokens'', PInt 420),
           (''processing_time_seconds'', PFloat 18),
           (''metadata'', PDict [(''title'', PStr ''Article'')]), (''bogus'', PInt 1)] of
     Inl e \<Rightarrow> False
   | Inr (rows', res) \<Rightarrow>
       (rows' ! 0) Status = PStr ''completed'' \<and> (rows' ! 0) Started_at = PTime 12 \<and>
       (rows' ! 0) Completed_at = PTime 30 \<and> (rows' ! 0) Chunk_count = PInt 3 \<and>
       (rows' ! 0) Error_message = PStr ''none'' \<and>
       (rows' ! 0) Error_traceback = PStr ''empty'' \<and>
       (rows' ! 0) Celery_task_id = PStr ''task-9'' \<and> (rows' ! 0) Total_tokens = PInt 420 \<and>
       (rows' ! 0) Processing_time_seconds = PFloat 18 \<and>
       (rows' ! 0) Metadata = PDict [(''title'', PStr ''Article'')] \<and>
       (rows' ! 0) Url = PStr ''https://example.com/article'' \<and>
       (rows' ! 0) Created_at = PTime 10 \<and> (rows' ! 0) Updated_at = PTime 10"
proof -
  let ?kw = "[(''started_at'', PTime 12), (''completed_at'', PTime 30), (''chunk_count'', PInt 3),
           (''error_message'', PStr ''none''), (''error_traceback'', PStr ''empty''),
           (''celery_task_id'', PStr ''task-9''), (''total_tokens'', PInt 420),
           (''processing_time_seconds'', PFloat 18),
           (''metadata'', PDict [(''title'', PStr ''Article'')]), (''bogus'', PInt 1)]"
  have ok: "table_ok [assign (set_clauses ''completed'' ?kw) example_job]"
    by (simp add: table_ok_def row_ok_def example_job_def new_job_def allowed_statuses_def
        not_nullable_def set_clauses_def mapping_fields_def)
  have "\<exists>rows' res. update_job_status_sync [example_job] ''job-1'' ''completed'' ?kw = Inr (rows', res)"
    using ok by (simp add: update_job_status_sync_def sql_update_def example_job_def new_job_def)
  then obtain rows' res where
    eq: "update_job_status_sync [example_job] ''job-1'' ''completed'' ?kw = Inr (rows', res)"
    by blast
  have id: "([example_job] ! 0) Id = PStr ''job-1''"
    by (simp add: example_job_def new_job_def)
  have cols: "fst ` set (set_clauses ''completed'' ?kw) =
      {Status, Started_at, Completed_at, Chunk_count, Error_message, Error_traceback,
       Celery_task_id, Total_tokens, Processing_time_seconds, Metadata}"
    by (simp add: set_clauses_def mapping_fields_def insert_commute)
  have len: "0 < length [example_job]" by simp
  note frame = update_job_status_sync_frame
    [of "''completed''" ?kw "[example_job]" "''job-1''" rows' res]
  have s: "\<And>i. i < length [example_job] \<Longrightarrow> ([example_job] ! i) Id = PStr ''job-1'' \<Longrightarrow>
      (rows' ! i) Status = PStr ''completed''"
    using frame eq by blast
  have w: "\<And>i k col v. i < length [example_job] \<Longrightarrow> ([example_job] ! i) Id = PStr ''job-1'' \<Longrightarrow>
      (k, col) \<in> set recognized \<Longrightarrow> map_of ?kw k = Some v \<Longrightarrow> (rows' ! i) col = v"
    using frame eq by blast
  have u: "\<And>i c. i < length [example_job] \<Longrightarrow> ([example_job] ! i) Id = PStr ''job-1'' \<Longrightarrow>
      c \<notin> fst ` set (set_clauses ''completed'' ?kw) \<Longrightarrow> (rows' ! i) c = ([example_job] ! i) c"
    using frame eq by blast
  note w0 = w [OF len id]
  have written: "(rows' ! 0) Started_at = PTime 12" "(rows' ! 0) Completed_at = PTime 30"
    "(rows' ! 0) Chunk_count = PInt 3" "(rows' ! 0) Error_message = PStr ''none''"
    "(rows' ! 0) Error_traceback = PStr ''empty''" "(rows' ! 0) Celery_task_id = PStr ''task-9''"
    "(rows' ! 0) Total_tokens = PInt 420" "(rows' ! 0) Processing_time_seconds = PFloat 18"
    "(rows' ! 0) Metadata = PDict [(''title'', PStr ''Article'')]"
    by (rule w0 [of "''started_at''"], simp add: recognized_def, simp)
      (rule w0 [of "''completed_at''"], simp add: recognized_def, simp,
       rule w0 [of "''chunk_count''"], simp add: recognized_def, simp,
       rule w0 [of "''error_message''"], simp add: recognized_def, simp,
       rule w0 [of "''error_traceback''"], simp add: recognized_def, simp,
       rule w0 [of "''celery_task_id''"], simp add: recognized_def, simp,
       rule w0 [of "''total_tokens''"], simp add: recognized_def, simp,
       rule w0 [of "''processing_time_seconds''"], simp add: recognized_def, simp,
       rule w0 [of "''metadata''"], simp add: recognized_def, simp)
  have kept: "(rows' ! 0) Url = ([example_job] ! 0) Url"
    "(rows' ! 0) Created_at = ([example_job] ! 0) Created_at"
    "(rows' ! 0) Updated_at = ([example_job] ! 0) Updated_at"
    by (rule u [OF len id], simp add: cols)+
  have old: "([example_job] ! 0) Url = PStr ''https://example.com/article''"
    "([example_job] ! 0) Created_at = PTime 10" "([example_job] ! 0) Updated_at = PTime 10"
    by (simp_all add: example_job_def new_job_def)
  show ?thesis
    using s [OF len id] written kept old by (simp add: eq)
qed

text \<open>
  C3 (as the code has it). In every table reachable through \<open>create_job\<close>,
  \<open>update_job_status\<close> and \<open>update_job_status_sync\<close> the status of each row is one of
  pending, processing, completed, failed: the check constraint of the table rejects every
  other write. The column completed_at, however, is not tied to the status by either update
  operation: after a successful update it holds the value passed under the keyword
  completed_at if there is one (the last one for the attribute loop of
  \<open>update_job_status\<close>), and otherwise the value it had before, whatever the new status is.
\<close>

theorem ledger_status_and_completed_at:
  "(reachable rows \<longrightarrow> (\<forall>r \<in> set rows. r Status \<in> PStr ` set allowed_statuses)) \<and>
   (update_job_status rows now job_id status kwargs = Inr (rows', Some job) \<and>
    get_job_by_id rows job_id = Some old \<longrightarrow>
      job Completed_at =
        (case map_of (rev kwargs) ''completed_at'' of None \<Rightarrow> old Completed_at | Some v \<Rightarrow> v)) \<and>
   (update_job_status_sync rows job_id status kwargs = Inr (rows', Some job) \<and>
    get_job_by_id rows job_id = Some old \<longrightarrow>
      job Completed_at =
        (case map_of kwargs ''completed_at'' of None \<Rightarrow> old Completed_at | Some v \<Rightarrow> v))"
proof -
  have "reachable rows \<Longrightarrow> \<forall>r \<in> set rows. r Status \<in> PStr ` set allowed_statuses"
    using reachable_ok [of rows] by (auto simp add: table_ok_def row_ok_def list_all_iff)
  then show ?thesis
    using update_completed_at [of rows now job_id status kwargs rows' job old]
      sync_completed_at [of rows job_id status kwargs rows' job old]
    by blast
qed

theorem ledger_status_and_completed_at_witness:
  "example_job Status \<in> PStr ` set allowed_statuses \<and>
   (case update_job_status [example_job] 5 ''job-1'' ''completed'' [(''completed_at'', PTime 5)] of
      Inl e \<Rightarrow> False
    | Inr (rows', res) \<Rightarrow> (\<exists>job. res = Some job \<and> job Completed_at = PTime 5)) \<and>
   (case update_job_status_sync [example_job] ''job-1'' ''processing'' [(''started_at'', PTime 2)] of
      Inl e \<Rightarrow> False
    | Inr (rows', res) \<Rightarrow> (\<exists>job. res = Some job \<and> job Completed_at = PNone))"
proof -
  let ?kw = "[(''completed_at'', PTime 5)]"
  let ?kw2 = "[(''started_at'', PTime 2)]"
  have 1: "example_job Status \<in> PStr ` set allowed_statuses"
    using ledger_status_and_completed_at [of "[example_job]"] reachable_example by simp
  have "table_ok [flush 5 example_job (set_attributes ?kw (example_job(Status := PStr ''completed'')))]"
    by (simp add: table_ok_def row_ok_def example_job_def new_job_def allowed_statuses_def
        not_nullable_def flush_def attr_column_def all_columns_def)
  then have "\<exists>rows' job. update_job_status [example_job] 5 ''job-1'' ''completed'' ?kw = Inr (rows', Some job)"
    using get_example by (simp add: update_job_status_def Let_def example_job_def new_job_def)
  then obtain rows' job where
    a: "update_job_status [example_job] 5 ''job-1'' ''completed'' ?kw = Inr (rows', Some job)"
    by blast
  have "job Completed_at = PTime 5"
    using ledger_status_and_completed_at [of "[example_job]" 5 "''job-1''" "''completed''" ?kw rows' job example_job]
      a get_example by simp
  then have 2: "case update_job_status [example_job] 5 ''job-1'' ''completed'' ?kw of
      Inl e \<Rightarrow> False
    | Inr (rows', res) \<Rightarrow> (\<exists>job. res = Some job \<and> job Completed_at = PTime 5)"
    by (simp add: a)
  have "table_ok [assign (set_clauses ''processing'' ?kw2) example_job]"
    by (simp add: table_ok_def row_ok_def example_job_def new_job_def allowed_statuses_def
        not_nullable_def set_clauses_def mapping_fields_def)
  then have "\<exists>rows2 job2. update_job_status_sync [example_job] ''job-1'' ''processing'' ?kw2 = Inr (rows2, Some job2)"
    by (simp add: update_job_status_sync_def sql_update_def example_job_def new_job_def)
  then obtain rows2 job2 where
    b: "update_job_status_sync [example_job] ''job-1'' ''processing'' ?kw2 = Inr (rows2, Some job2)"
    by blast
  have "job2 Completed_at = example_job Completed_at"
    using ledger_status_and_completed_at [of "[example_job]" 0 "''job-1''" "''processing''" ?kw2 rows2 job2 example_job]
      b get_example by simp
  moreover have "example_job Completed_at = PNone"
    by (simp add: example_job_def new_job_def)
  ultimately have 3: "case update_job_status_sync [example_job] ''job-1'' ''processing'' ?kw2 of
      Inl e \<Rightarrow> False
    | Inr (rows', res) \<Rightarrow> (\<exists>job. res = Some job \<and> job Completed_at = PNone)"
    by (simp add: b)
  from 1 2 3 show ?thesis by blast
qed

text \<open>
  C3 as stated fails. The call made by the ingest endpoint when the task cannot be queued,
  \<open>update_job_status(job.id, "failed", error_message=...)\<close>, applied to a freshly created job,
  yields a reachable table whose job has status failed and a null completed_at.
\<close>

theorem failed_job_without_completed_at:
  "case create_job [] ''job-1'' 10 ''https://example.com/article'' None of
     Inl e \<Rightarrow> False
   | Inr (rows, created) \<Rightarrow>
       (case update_job_status rows 20 ''job-1'' ''failed''
               [(''error_message'', PStr ''broker unreachable'')] of
          Inl e \<Rightarrow> False
        | Inr (rows', res) \<Rightarrow>
            reachable rows' \<and>
            (\<exists>job. res = Some job \<and> get_job_by_id rows' ''job-1'' = Some job \<and>
               job Status = PStr ''failed'' \<and> job Completed_at = PNone))"
proof -
  define failed where
    "failed = flush 20 example_job
       (set_attributes [(''error_message'', PStr ''broker unreachable'')]
          (example_job(Status := PStr ''failed'')))"
  have ok: "table_ok [failed]"
    by (simp add: failed_def table_ok_def row_ok_def example_job_def new_job_def
        allowed_statuses_def not_nullable_def flush_def attr_column_def all_columns_def)
  have id: "example_job Id = PStr ''job-1''" "failed Id = PStr ''job-1''"
    by (simp_all add: failed_def example_job_def new_job_def flush_def attr_column_def)
  have u: "update_job_status [example_job] 20 ''job-1'' ''failed''
             [(''error_message'', PStr ''broker unreachable'')] = Inr ([failed], Some failed)"
    using ok get_example id(1) unfolding failed_def
    by (simp add: update_job_status_def Let_def)
  have r: "reachable [failed]"
    using reachable.update [OF reachable_example u] .
  have g: "get_job_by_id [failed] ''job-1'' = Some failed"
    using id(2) by (simp add: get_job_by_id_def)
  have v: "failed Status = PStr ''failed''" "failed Completed_at = PNone"
    by (simp_all add: failed_def example_job_def new_job_def flush_def attr_column_def)
  show ?thesis
    using r g v by (simp add: create_example u)
qed

section \<open>Properties of markup cleaning\<close>























section \<open>Properties of the point ids\<close>

lemmas sip_defs = py_hash_def siphash13_def sip_blocks.simps absorb_def single_round_def
  half_round_def rotate_def

lemma hash_worker_a: "py_hash worker_a example_job_id = - 3546435096536670011"
  by (simp add: worker_a_def example_job_id_def sip_defs)

lemma hash_worker_b: "py_hash worker_b example_job_id = - 8186523036028630534"
  by (simp add: worker_b_def example_job_id_def sip_defs)

lemma point_ids:
  "map ps_id (map (make_point secret metadata job_id ingested_at) (enumerate n entries)) =
   map (\<lambda>i. (py_hash secret job_id mod 1000000) * 10000 + int i) [n ..< n + length entries]"
  by (induction entries arbitrary: n) (auto simp add: make_point_def upt_rec split: prod.splits)

lemma upsert_dom: "dom (upsert stored points) = dom stored \<union> ps_id ` set points"
  unfolding upsert_def by (induction points arbitrary: stored) auto

lemma same_process_same_ids:
  assumes "add_documents secret None stored t1 chunks vectors metadata job_id = Inr (first_run, n)"
    and "add_documents secret None first_run t2 chunks vectors metadata job_id = Inr (second_run, m)"
  shows "dom second_run = dom first_run"
proof -
  let ?pts = "\<lambda>t. map (make_point secret metadata job_id t) (enumerate 0 (zip chunks vectors))"
  let ?ids = "set (map (\<lambda>i. (py_hash secret job_id mod 1000000) * 10000 + int i)
                    [0 ..< 0 + length (zip chunks vectors)])"
  have ids: "\<And>t. ps_id ` set (?pts t) = ?ids"
    using point_ids [of secret metadata job_id _ 0 "zip chunks vectors"]
    by (metis set_map)
  have 1: "first_run = upsert stored (?pts t1)"
    using assms(1) by (simp add: add_documents_def)
  have 2: "second_run = upsert first_run (?pts t2)"
    using assms(2) by (simp add: add_documents_def)
  have "dom first_run = dom stored \<union> ?ids"
    unfolding 1 upsert_dom ids ..
  moreover have "dom second_run = dom first_run \<union> ?ids"
    unfolding 2 upsert_dom ids ..
  ultimately show ?thesis by blast
qed

text \<open>
  C1. The point id is built from \<^verbatim>\<open>hash(job_id)\<close>, which depends on the hash secret of the
  process. Inside one process a second run for the same job writes the same ids (lemma
  \<open>same_process_same_ids\<close>); in two processes with different secrets it does not: for the
  job identifier below, the two chunks get the ids 3299890000 and 3299890001 in the first
  process and 3694660000 and 3694660001 in the second, and after both runs the collection
  holds four points for the two chunks.
\<close>

theorem add_documents_ids_change_with_process:
  "(case add_documents worker_a None Map.empty ''2024-05-01T10:00:00'' [''alpha'', ''beta'']
           [[1, 0], [0, 1]] None example_job_id of
      Inl e \<Rightarrow> False
    | Inr (first_run, n) \<Rightarrow>
        dom first_run = {3299890000, 3299890001} \<and>
        (case add_documents worker_b None first_run ''2024-05-01T10:05:00'' [''alpha'', ''beta'']
                [[1, 0], [0, 1]] None example_job_id of
           Inl e \<Rightarrow> False
         | Inr (second_run, m) \<Rightarrow>
             dom second_run = {3299890000, 3299890001, 3694660000, 3694660001}))"
  by (simp add: add_documents_def upsert_def make_point_def enumerate_eq_zip upt_rec
      hash_worker_a hash_worker_b insert_commute)

end
